theory Spec2Isabelle
  imports Main "HOL-Library.Sublist"
begin

section \<open>Python strings\<close>

text \<open>
  The module \<^verbatim>\<open>lib/ansible/modules/monitoring/logstash_plugin.py\<close> works on
  Python byte strings (\<^verbatim>\<open>str\<close> of the \<^verbatim>\<open>/usr/bin/python\<close> named in its first line):
  a string is a list of 8-bit characters. Three string methods are used by the module:
  \<^verbatim>\<open>str.index\<close>, \<^verbatim>\<open>str.strip\<close> and \<^verbatim>\<open>str.join\<close>, and the
  format operator \<^verbatim>\<open>%s\<close>.
\<close>

datatype exn = ValueError

text \<open>The characters \<^verbatim>\<open>str.strip()\<close> removes: space, \<^verbatim>\<open>\t \n \v \f \r\<close>.\<close>

definition isspace :: "char \<Rightarrow> bool" where
  "isspace c = (c = CHR '' '' \<or> c = CHR 0x09 \<or> c = CHR 0x0A \<or> c = CHR 0x0B
                \<or> c = CHR 0x0C \<or> c = CHR 0x0D)"

definition lstrip :: "string \<Rightarrow> string" where
  "lstrip s = dropWhile isspace s"

definition rstrip :: "string \<Rightarrow> string" where
  "rstrip s = rev (dropWhile isspace (rev s))"

definition strip :: "string \<Rightarrow> string" where
  "strip s = rstrip (lstrip s)"

text \<open>
  \<^verbatim>\<open>s.index(sub)\<close>: the lowest position at which \<^verbatim>\<open>sub\<close> starts in \<^verbatim>\<open>s\<close>;
  raises \<^verbatim>\<open>ValueError\<close> when there is none.
\<close>

fun index :: "string \<Rightarrow> string \<Rightarrow> exn + nat" where
  "index [] sub = (if sub = [] then Inr 0 else Inl ValueError)"
| "index (c # cs) sub =
     (if prefix sub (c # cs) then Inr 0
      else (case index cs sub of Inl e \<Rightarrow> Inl e | Inr i \<Rightarrow> Inr (Suc i)))"

text \<open>\<^verbatim>\<open>sep.join(xs)\<close>\<close>

fun join :: "string \<Rightarrow> string list \<Rightarrow> string" where
  "join sep [] = []"
| "join sep [x] = x"
| "join sep (x # y # ys) = x @ sep @ join sep (y # ys)"

text \<open>
  The module's optional parameters are \<^verbatim>\<open>None\<close> or a string. \<open>truthy\<close> is Python's
  truth value of such a value (\<^verbatim>\<open>None\<close> and the empty string are false), \<open>fmt_s\<close> is
  what \<^verbatim>\<open>"%s" % v\<close> prints for it: the string itself, when it is one.
\<close>

fun truthy :: "string option \<Rightarrow> bool" where
  "truthy None = False"
| "truthy (Some s) = (s \<noteq> [])"

fun fmt_s :: "string option \<Rightarrow> string" where
  "fmt_s None = ''None''"
| "fmt_s (Some s) = s"


section \<open>The module\<close>

text \<open>
  \<^verbatim>\<open>state\<close> is declared with \<^verbatim>\<open>choices=PACKAGE_STATE_MAP.keys()\<close>, so the module body
  only ever sees one of the two keys.
\<close>

datatype desired_state = Present | Absent

fun state_name :: "desired_state \<Rightarrow> string" where
  "state_name Present = ''present''"
| "state_name Absent = ''absent''"

fun PACKAGE_STATE_MAP :: "desired_state \<Rightarrow> string" where
  "PACKAGE_STATE_MAP Present = ''install''"
| "PACKAGE_STATE_MAP Absent = ''remove''"

text \<open>
  The outside world. \<^verbatim>\<open>AnsibleModule\<close> is imported from
  \<^verbatim>\<open>ansible.module_utils.basic\<close>; the module uses its \<^verbatim>\<open>check_mode\<close> flag and its
  \<^verbatim>\<open>run_command\<close>, which yields an exit code, the captured standard output and the
  captured standard error. What a command line does is the parameter \<open>command\<close>: a
  function of the command line and the state \<open>'w\<close> of the host, to the triple and the
  host's next state. \<open>trace\<close> records every command line that was executed, in order.
\<close>

record 'w ansible_module =
  check_mode :: bool
  command :: "string \<Rightarrow> 'w \<Rightarrow> (int \<times> string \<times> string) \<times> 'w"

record 'w sys =
  world :: 'w
  trace :: "string list"

definition run_command ::
  "'w ansible_module \<Rightarrow> string \<Rightarrow> 'w sys \<Rightarrow> (int \<times> string \<times> string) \<times> 'w sys" where
  "run_command module cmd s =
     (case command module cmd (world s) of
        (res, w') \<Rightarrow> (res, \<lparr>world = w', trace = trace s @ [cmd]\<rparr>))"

text \<open>The keyword arguments of \<^verbatim>\<open>exit_json\<close> and \<^verbatim>\<open>fail_json\<close>, in the order written.\<close>

datatype jvalue = B bool | S string

type_synonym kwargs = "(string \<times> jvalue) list"

datatype outcome = exit_json kwargs | fail_json kwargs

text \<open>\<^verbatim>\<open>is_plugin_present\<close>, lines 106 to 109.\<close>

definition is_plugin_present ::
  "'w ansible_module \<Rightarrow> string \<Rightarrow> string \<Rightarrow> 'w sys \<Rightarrow> bool \<times> 'w sys" where
  "is_plugin_present module plugin_bin plugin_name s =
     (let cmd_args = [plugin_bin, ''list'', plugin_name] in
      case run_command module (join '' '' cmd_args) s of
        ((rc, out, err), s') \<Rightarrow> (rc = 0, s'))"

text \<open>\<^verbatim>\<open>parse_error\<close>, lines 112 to 117.\<close>

definition parse_error :: "string \<Rightarrow> string" where
  "parse_error string =
     (let reason = ''reason: '' in
      case index string reason of
        Inr i \<Rightarrow> strip (drop (i + length reason) string)
      | Inl ValueError \<Rightarrow> string)"

text \<open>
  \<^verbatim>\<open>install_plugin\<close>, lines 120 to 143. Lines 121 to 132 build the command line
  (\<open>install_cmd_args\<close>, \<open>install_cmd\<close>). Lines 134 to 137, which \<^verbatim>\<open>remove_plugin\<close>
  repeats as lines 151 to 154, are \<open>check_or_run\<close>. \<^verbatim>\<open>module.fail_json(msg=reason)\<close>
  ends the process: the function returns \<open>Inl\<close> of its keyword arguments.
\<close>

definition install_cmd_args ::
  "string \<Rightarrow> string \<Rightarrow> string option \<Rightarrow> string option \<Rightarrow> string option \<Rightarrow> string option
   \<Rightarrow> string list" where
  "install_cmd_args plugin_bin plugin_name version proxy_host proxy_port source =
     (let source = (if \<not> truthy source then plugin_name else fmt_s source);
          cmd_args = [plugin_bin, PACKAGE_STATE_MAP Present, source];
          cmd_args = (if truthy version
                      then cmd_args @ [''--version '' @ fmt_s version] else cmd_args);
          cmd_args = (if truthy proxy_host \<and> truthy proxy_port
                      then cmd_args @ [''-DproxyHost='' @ fmt_s proxy_host
                                        @ '' -DproxyPort='' @ fmt_s proxy_port]
                      else cmd_args)
      in cmd_args)"

definition install_cmd ::
  "string \<Rightarrow> string \<Rightarrow> string option \<Rightarrow> string option \<Rightarrow> string option \<Rightarrow> string option
   \<Rightarrow> string" where
  "install_cmd plugin_bin plugin_name version proxy_host proxy_port source =
     join '' '' (install_cmd_args plugin_bin plugin_name version proxy_host proxy_port source)"

definition check_or_run ::
  "'w ansible_module \<Rightarrow> string \<Rightarrow> 'w sys \<Rightarrow> (int \<times> string \<times> string) \<times> 'w sys" where
  "check_or_run module cmd s =
     (if check_mode module then ((0, ''check mode'', ''''), s)
      else run_command module cmd s)"

definition install_plugin ::
  "'w ansible_module \<Rightarrow> string \<Rightarrow> string \<Rightarrow> string option \<Rightarrow> string option \<Rightarrow> string option
   \<Rightarrow> string option \<Rightarrow> 'w sys \<Rightarrow> (kwargs + bool \<times> string \<times> string \<times> string) \<times> 'w sys" where
  "install_plugin module plugin_bin plugin_name version proxy_host proxy_port source s =
     (let cmd = install_cmd plugin_bin plugin_name version proxy_host proxy_port source in
      case check_or_run module cmd s of
        ((rc, out, err), s') \<Rightarrow>
          if rc \<noteq> 0 then (Inl [(''msg'', S (parse_error out))], s')
          else (Inr (True, cmd, out, err), s'))"

text \<open>\<^verbatim>\<open>remove_plugin\<close>, lines 146 to 160.\<close>

definition remove_cmd :: "string \<Rightarrow> string \<Rightarrow> string" where
  "remove_cmd plugin_bin plugin_name =
     (let cmd_args = [plugin_bin, PACKAGE_STATE_MAP Absent, plugin_name] in
      join '' '' cmd_args)"

definition remove_plugin ::
  "'w ansible_module \<Rightarrow> string \<Rightarrow> string
   \<Rightarrow> 'w sys \<Rightarrow> (kwargs + bool \<times> string \<times> string \<times> string) \<times> 'w sys" where
  "remove_plugin module plugin_bin plugin_name s =
     (let cmd = remove_cmd plugin_bin plugin_name in
      case check_or_run module cmd s of
        ((rc, out, err), s') \<Rightarrow>
          if rc \<noteq> 0 then (Inl [(''msg'', S (parse_error out))], s')
          else (Inr (True, cmd, out, err), s'))"

text \<open>
  \<^verbatim>\<open>main\<close>, lines 163 to 196. \<^verbatim>\<open>module.params\<close> is the record \<open>params\<close>;
  \<^verbatim>\<open>exit_json\<close> and \<^verbatim>\<open>fail_json\<close> end the process, so each is a result of \<open>main\<close>.
\<close>

record params =
  name :: string
  state :: desired_state
  plugin_bin :: string
  proxy_host :: "string option"
  proxy_port :: "string option"
  version :: "string option"
  source :: "string option"

definition main :: "'w ansible_module \<Rightarrow> params \<Rightarrow> 'w sys \<Rightarrow> outcome \<times> 'w sys" where
  "main module params s =
     (case is_plugin_present module (plugin_bin params) (name params) s of
        (present, s1) \<Rightarrow>
          if (present \<and> state params = Present) \<or> (state params = Absent \<and> \<not> present)
          then (exit_json [(''changed'', B False), (''name'', S (name params)),
                           (''state'', S (state_name (state params)))], s1)
          else
            (case (case state params of
                     Present \<Rightarrow>
                       install_plugin module (plugin_bin params) (name params) (version params)
                         (proxy_host params) (proxy_port params) (source params) s1
                   | Absent \<Rightarrow>
                       remove_plugin module (plugin_bin params) (name params) s1) of
               (Inl failure, s2) \<Rightarrow> (fail_json failure, s2)
             | (Inr (changed, cmd, out, err), s2) \<Rightarrow>
                 (exit_json [(''changed'', B changed), (''cmd'', S cmd),
                             (''name'', S (name params)),
                             (''state'', S (state_name (state params))),
                             (''stdout'', S out), (''stderr'', S err)], s2)))"


section \<open>Vocabulary of the specification\<close>

text \<open>
  The decision table of the specification (section 4.1, \<^verbatim>\<open>decide\<close>), written from its
  words; \<open>main\<close> has no such function, its lines 188 to 194 are compared with the table
  below.
\<close>

datatype action = NoOp | Install | Remove

fun decide :: "bool \<Rightarrow> desired_state \<Rightarrow> action" where
  "decide True Present = NoOp"
| "decide False Absent = NoOp"
| "decide False Present = Install"
| "decide True Absent = Remove"

text \<open>The command line of the probe, and the one of the corrective action of a run.\<close>

definition list_cmd :: "params \<Rightarrow> string" where
  "list_cmd p = plugin_bin p @ '' list '' @ name p"

definition corrective_cmd :: "params \<Rightarrow> string" where
  "corrective_cmd p =
     (case state p of
        Present \<Rightarrow> install_cmd (plugin_bin p) (name p) (version p) (proxy_host p)
                     (proxy_port p) (source p)
      | Absent \<Rightarrow> remove_cmd (plugin_bin p) (name p))"

text \<open>
  How \<open>main\<close> ends once \<^verbatim>\<open>install_plugin\<close> or \<^verbatim>\<open>remove_plugin\<close> is over: their
  \<^verbatim>\<open>fail_json\<close> has ended the process, or line 196 reports their result.
\<close>

definition finish ::
  "params \<Rightarrow> (kwargs + bool \<times> string \<times> string \<times> string) \<times> 'w sys \<Rightarrow> outcome \<times> 'w sys" where
  "finish p r =
     (case r of
        (Inl failure, s2) \<Rightarrow> (fail_json failure, s2)
      | (Inr (changed, cmd, out, err), s2) \<Rightarrow>
          (exit_json [(''changed'', B changed), (''cmd'', S cmd), (''name'', S (name p)),
                      (''state'', S (state_name (state p))),
                      (''stdout'', S out), (''stderr'', S err)], s2))"

text \<open>
  The hypotheses of idempotence on the external tool, for the command lines of \<open>p\<close>.
  \<open>reflects_mutation\<close>: after a corrective command that exits with 0, the list command
  reports the plugin as the desired state has it. \<open>list_repeatable\<close>: the list command,
  run twice in a row, gives the same answer (it is a read-only query).
\<close>

definition reflects_mutation :: "'w ansible_module \<Rightarrow> params \<Rightarrow> bool" where
  "reflects_mutation m p \<longleftrightarrow>
     (\<forall>w. fst (fst (command m (corrective_cmd p) w)) = 0 \<longrightarrow>
        (fst (fst (command m (list_cmd p) (snd (command m (corrective_cmd p) w)))) = 0)
          = (state p = Present))"

definition list_repeatable :: "'w ansible_module \<Rightarrow> params \<Rightarrow> bool" where
  "list_repeatable m p \<longleftrightarrow>
     (\<forall>w. (fst (fst (command m (list_cmd p) (snd (command m (list_cmd p) w)))) = 0)
          = (fst (fst (command m (list_cmd p) w)) = 0))"


section \<open>A simulated plugin manager\<close>

text \<open>
  A small tool to run the module against: it manages the one plugin \<^verbatim>\<open>beats\<close>. The
  state of the host is whether the plugin is installed and whether the network is down;
  an installation attempted while the network is down fails, and brings the network back.
\<close>

definition sim_tool :: "string \<Rightarrow> bool \<times> bool \<Rightarrow> (int \<times> string \<times> string) \<times> (bool \<times> bool)" where
  "sim_tool cmd w =
     (case w of (installed, offline) \<Rightarrow>
        if cmd = ''/bin/lp list beats''
        then (if installed then ((0, ''beats'', ''''), w)
              else ((1, ''ERROR: No plugins found'', ''''), w))
        else if cmd = ''/bin/lp install beats''
        then (if offline
              then ((1, ''ERROR: Installation aborted, reason: network is down '', ''''),
                    (installed, False))
              else ((0, ''Installation successful'', ''''), (True, offline)))
        else if cmd = ''/bin/lp remove beats''
        then (if installed then ((0, ''Successfully removed beats'', ''''), (False, offline))
              else ((1, ''ERROR: operation aborted'', ''beats is not installed''), w))
        else ((2, ''ERROR: unknown command'', ''''), w))"

definition sim_module :: "bool \<Rightarrow> (bool \<times> bool) ansible_module" where
  "sim_module chk = \<lparr>check_mode = chk, command = sim_tool\<rparr>"

definition sim_params :: "desired_state \<Rightarrow> params" where
  "sim_params d = \<lparr>name = ''beats'', state = d, plugin_bin = ''/bin/lp'',
                   proxy_host = None, proxy_port = None, version = None, source = None\<rparr>"

definition sim_sys :: "bool \<Rightarrow> bool \<Rightarrow> string list \<Rightarrow> (bool \<times> bool) sys" where
  "sim_sys installed offline tr = \<lparr>world = (installed, offline), trace = tr\<rparr>"

text \<open>
  A second tool, whose list command answers every other time only: the state of the host
  is whether the registry can be read. Installing always succeeds and repairs the registry.
\<close>

definition flaky_tool :: "string \<Rightarrow> bool \<Rightarrow> (int \<times> string \<times> string) \<times> bool" where
  "flaky_tool cmd readable =
     (if cmd = ''/bin/lp list beats''
      then (if readable then ((0, ''beats'', ''''), False)
            else ((1, ''ERROR: No plugins found'', ''''), True))
      else ((0, ''Installation successful'', ''''), True))"

definition flaky_module :: "bool ansible_module" where
  "flaky_module = \<lparr>check_mode = False, command = flaky_tool\<rparr>"

definition flaky_sys :: "bool \<Rightarrow> string list \<Rightarrow> bool sys" where
  "flaky_sys readable tr = \<lparr>world = readable, trace = tr\<rparr>"


section \<open>Properties of the string operations\<close>

lemma index_Inr:
  "index s sub = Inr i \<Longrightarrow> prefix sub (drop i s) \<and> i \<le> length s \<and> (\<forall>j<i. \<not> prefix sub (drop j s))"
proof (induction s arbitrary: i)
  case Nil
  then show ?case by (simp split: if_splits)
next
  case (Cons c cs)
  show ?case
  proof (cases "prefix sub (c # cs)")
    case True
    with Cons.prems show ?thesis by simp
  next
    case False
    with Cons.prems obtain k where k: "index cs sub = Inr k" "i = Suc k"
      by (auto split: sum.splits)
    from Cons.IH[OF k(1)] have ih: "prefix sub (drop k cs)" "k \<le> length cs"
      "\<forall>j<k. \<not> prefix sub (drop j cs)" by auto
    have "\<not> prefix sub (drop j (c # cs))" if "j < i" for j
    proof (cases j)
      case 0
      with False show ?thesis by simp
    next
      case (Suc j')
      with that k(2) ih(3) show ?thesis by simp
    qed
    with ih k(2) show ?thesis by simp
  qed
qed

lemma index_Inl:
  "index s sub = Inl e \<Longrightarrow> \<not> prefix sub (drop j s)"
proof (induction s arbitrary: j)
  case Nil
  then show ?case by (simp split: if_splits)
next
  case (Cons c cs)
  from Cons.prems have np: "\<not> prefix sub (c # cs)" and r: "index cs sub = Inl e"
    by (auto split: if_splits sum.splits)
  show ?case
  proof (cases j)
    case 0
    with np show ?thesis by simp
  next
    case (Suc j')
    with Cons.IH[OF r] show ?thesis by simp
  qed
qed


lemma index_total_on_occurrence:
  assumes "s = pre @ sub @ post"
  shows "\<exists>i. index s sub = Inr i \<and> i \<le> length pre"
proof (cases "index s sub")
  case (Inl e)
  from index_Inl[OF Inl, of "length pre"] assms show ?thesis by simp
next
  case (Inr i)
  have "\<not> length pre < i"
  proof
    assume "length pre < i"
    with index_Inr[OF Inr] have "\<not> prefix sub (drop (length pre) s)" by blast
    with assms show False by simp
  qed
  with Inr show ?thesis by simp
qed

lemma index_first_occurrence:
  assumes s: "s = pre @ sub @ post"
    and least: "\<forall>pre' post'. s = pre' @ sub @ post' \<longrightarrow> length pre \<le> length pre'"
  shows "index s sub = Inr (length pre)"
proof -
  from index_total_on_occurrence[OF s] obtain i where i: "index s sub = Inr i" "i \<le> length pre"
    by blast
  from index_Inr[OF i(1)] have p: "prefix sub (drop i s)" and le: "i \<le> length s" by auto
  from p obtain post' where "drop i s = sub @ post'" by (auto simp: prefix_def)
  then have "s = take i s @ sub @ post'" by (metis append_take_drop_id)
  with least have "length pre \<le> length (take i s)" by blast
  with le have "length pre \<le> i" by simp
  with i show ?thesis by simp
qed

lemma strip_spec:
  "\<exists>a b. t = a @ strip t @ b \<and> (\<forall>c\<in>set a. isspace c) \<and> (\<forall>c\<in>set b. isspace c)
     \<and> (strip t = [] \<or> (\<not> isspace (hd (strip t)) \<and> \<not> isspace (last (strip t))))"
proof -
  define a where "a = takeWhile isspace t"
  define u where "u = dropWhile isspace t"
  define b where "b = rev (takeWhile isspace (rev u))"
  have st: "strip t = rev (dropWhile isspace (rev u))"
    by (simp add: strip_def rstrip_def lstrip_def u_def)
  have "rev (dropWhile isspace (rev u)) @ rev (takeWhile isspace (rev u))
          = rev (takeWhile isspace (rev u) @ dropWhile isspace (rev u))"
    by (simp only: rev_append)
  also have "\<dots> = u" by (simp only: takeWhile_dropWhile_id rev_rev_ident)
  finally have u: "u = strip t @ b" by (simp only: st b_def)
  have "t = a @ u" by (simp add: a_def u_def)
  with u have t: "t = a @ strip t @ b" by simp
  have wa: "\<forall>c\<in>set a. isspace c" by (auto simp: a_def dest: set_takeWhileD)
  have wb: "\<forall>c\<in>set b. isspace c" by (auto simp: b_def dest: set_takeWhileD)
  have ends: "\<not> isspace (hd (strip t)) \<and> \<not> isspace (last (strip t))" if ne: "strip t \<noteq> []"
  proof -
    from ne u have une: "u \<noteq> []" by auto
    then have "\<not> isspace (hd u)" unfolding u_def by (rule hd_dropWhile)
    moreover from ne u have "hd u = hd (strip t)" by (metis hd_append2)
    moreover from ne have "dropWhile isspace (rev u) \<noteq> []" by (simp add: st)
    then have "\<not> isspace (hd (dropWhile isspace (rev u)))" by (rule hd_dropWhile)
    then have "\<not> isspace (last (strip t))" using ne by (simp add: st last_rev)
    ultimately show ?thesis by simp
  qed
  from t wa wb ends show ?thesis by blast
qed

text \<open>
  Claim C2. When the marker \<^verbatim>\<open>"reason: "\<close> occurs in the output, \<open>parse_error\<close> returns
  what follows its first occurrence, stripped: the text after the marker is the result
  between two runs of whitespace, and the result neither starts nor ends with a whitespace
  character. When the marker does not occur, the output is returned unchanged. The output
  \<^verbatim>\<open>"... reason: disk full"\<close> gives \<^verbatim>\<open>"disk full"\<close>.
\<close>

theorem parse_error_spec:
  "(s = pre @ ''reason: '' @ post
      \<and> (\<forall>pre' post'. s = pre' @ ''reason: '' @ post' \<longrightarrow> length pre \<le> length pre')
     \<longrightarrow> parse_error s = strip post
         \<and> (\<exists>a b. post = a @ parse_error s @ b
                \<and> (\<forall>c\<in>set a. isspace c) \<and> (\<forall>c\<in>set b. isspace c)
                \<and> (parse_error s = [] \<or>
                    (\<not> isspace (hd (parse_error s)) \<and> \<not> isspace (last (parse_error s))))))
   \<and> ((\<forall>pre post. s \<noteq> pre @ ''reason: '' @ post) \<longrightarrow> parse_error s = s)
   \<and> parse_error ''... reason: disk full'' = ''disk full''"
proof (intro conjI impI)
  assume h: "s = pre @ ''reason: '' @ post
      \<and> (\<forall>pre' post'. s = pre' @ ''reason: '' @ post' \<longrightarrow> length pre \<le> length pre')"
  then have "index s ''reason: '' = Inr (length pre)" by (intro index_first_occurrence) auto
  with h show eq: "parse_error s = strip post" by (simp add: parse_error_def)
  from strip_spec[of post] show "\<exists>a b. post = a @ parse_error s @ b
                \<and> (\<forall>c\<in>set a. isspace c) \<and> (\<forall>c\<in>set b. isspace c)
                \<and> (parse_error s = [] \<or>
                    (\<not> isspace (hd (parse_error s)) \<and> \<not> isspace (last (parse_error s))))"
    unfolding eq .
next
  assume h: "\<forall>pre post. s \<noteq> pre @ ''reason: '' @ post"
  have "index s ''reason: '' = Inl ValueError"
  proof (cases "index s ''reason: ''")
    case (Inl e)
    then show ?thesis by (cases e) simp
  next
    case (Inr i)
    from index_Inr[OF Inr] obtain post where "drop i s = ''reason: '' @ post"
      by (auto simp: prefix_def)
    then have "s = take i s @ ''reason: '' @ post" by (metis append_take_drop_id)
    with h show ?thesis by blast
  qed
  then show "parse_error s = s" by (simp add: parse_error_def)
next
  show "parse_error ''... reason: disk full'' = ''disk full''"
    by (simp add: parse_error_def strip_def lstrip_def rstrip_def isspace_def)
qed

theorem parse_error_spec_witness:
  "''E: reason:  disk full '' = ''E: '' @ ''reason: '' @ '' disk full ''
   \<and> parse_error ''E: reason:  disk full '' = ''disk full''
   \<and> parse_error ''no marker'' = ''no marker''"
proof -
  have i: "index ''E: reason:  disk full '' ''reason: '' = Inr 3" by simp
  have dec: "''E: reason:  disk full '' = ''E: '' @ ''reason: '' @ '' disk full ''" by simp
  have least: "\<forall>pre' post'. ''E: reason:  disk full '' = pre' @ ''reason: '' @ post'
     \<longrightarrow> length ''E: '' \<le> length pre'"
  proof (intro allI impI)
    fix pre' post' assume "''E: reason:  disk full '' = pre' @ ''reason: '' @ post'"
    then have "prefix ''reason: '' (drop (length pre') ''E: reason:  disk full '')"
      by (metis append_eq_conv_conj prefixI)
    with index_Inr[OF i] have "\<not> length pre' < 3" by blast
    then show "length ''E: '' \<le> length pre'" by simp
  qed
  have "parse_error ''E: reason:  disk full '' = strip '' disk full ''"
    using parse_error_spec[of "''E: reason:  disk full ''" "''E: ''" "'' disk full ''"] dec least
    by blast
  then have a: "parse_error ''E: reason:  disk full '' = ''disk full''"
    by (simp add: strip_def lstrip_def rstrip_def isspace_def)
  have none: "\<forall>pre post. ''no marker'' \<noteq> pre @ ''reason: '' @ post"
  proof (intro allI notI)
    fix pre post assume "''no marker'' = pre @ ''reason: '' @ post"
    then have "prefix ''reason: '' (drop (length pre) ''no marker'')"
      by (metis append_eq_conv_conj prefixI)
    moreover have "index ''no marker'' ''reason: '' = Inl ValueError" by simp
    ultimately show False using index_Inl by blast
  qed
  have b: "parse_error ''no marker'' = ''no marker''"
    using parse_error_spec[of "''no marker''"] none by blast
  from dec a b show ?thesis by blast
qed

section \<open>Properties of the module\<close>

lemma install_cmd_unfold:
  "install_cmd bin nm v h port src =
     bin @ '' install '' @ (if truthy src then fmt_s src else nm)
       @ (if truthy v then '' --version '' @ fmt_s v else [])
       @ (if truthy h \<and> truthy port
          then '' -DproxyHost='' @ fmt_s h @ '' -DproxyPort='' @ fmt_s port else [])"
  by (simp add: install_cmd_def install_cmd_args_def Let_def)

lemma remove_cmd_unfold: "remove_cmd bin nm = bin @ '' remove '' @ nm"
  by (simp add: remove_cmd_def)

lemma list_cmd_not_corrective: "list_cmd (p::params) \<noteq> corrective_cmd p"
  by (cases "state p") (simp_all add: list_cmd_def corrective_cmd_def install_cmd_unfold remove_cmd_unfold)

lemma probe_unfold:
  "is_plugin_present m bin nm s =
     (fst (fst (command m (bin @ '' list '' @ nm) (world s))) = 0,
      \<lparr>world = snd (command m (bin @ '' list '' @ nm) (world s)),
       trace = trace s @ [bin @ '' list '' @ nm]\<rparr>)"
  by (simp add: is_plugin_present_def run_command_def Let_def split: prod.splits)

lemma sim_fields:
  "name (sim_params d) = ''beats''" "state (sim_params d) = d"
  "plugin_bin (sim_params d) = ''/bin/lp''"
  by (simp_all add: sim_params_def)

lemma sim_list: "list_cmd (sim_params d) = ''/bin/lp list beats''"
  by (simp add: list_cmd_def sim_params_def)

lemma sim_corrective:
  "corrective_cmd (sim_params Present) = ''/bin/lp install beats''"
  "corrective_cmd (sim_params Absent) = ''/bin/lp remove beats''"
  by (simp_all add: corrective_cmd_def sim_params_def install_cmd_unfold remove_cmd_unfold)

lemma sim_probe:
  "is_plugin_present (sim_module c) (plugin_bin (sim_params d)) (name (sim_params d)) (sim_sys i off tr)
     = (i, sim_sys i off (tr @ [''/bin/lp list beats'']))"
  by (simp add: probe_unfold sim_module_def sim_params_def sim_sys_def sim_tool_def)

lemma probe_state:
  assumes "is_plugin_present m (plugin_bin p) (name p) s = (P, s1)"
  shows "P = (fst (fst (command m (list_cmd p) (world s))) = 0)"
    and "world s1 = snd (command m (list_cmd p) (world s))"
    and "trace s1 = trace s @ [list_cmd p]"
  using assms by (auto simp: probe_unfold list_cmd_def)

lemma decide_NoOp: "decide P d = NoOp \<longleftrightarrow> (P \<and> d = Present) \<or> (\<not> P \<and> d = Absent)"
  by (cases P; cases d) simp_all

lemma main_decide:
  assumes "is_plugin_present m (plugin_bin p) (name p) s = (P, s1)"
  shows "main m p s =
     (case decide P (state p) of
        NoOp \<Rightarrow> (exit_json [(''changed'', B False), (''name'', S (name p)),
                             (''state'', S (state_name (state p)))], s1)
      | Install \<Rightarrow> finish p (install_plugin m (plugin_bin p) (name p) (version p)
                               (proxy_host p) (proxy_port p) (source p) s1)
      | Remove \<Rightarrow> finish p (remove_plugin m (plugin_bin p) (name p) s1))"
  using assms by (cases P; cases "state p") (simp_all add: main_def finish_def)

lemma corrective_unfold:
  "(case state p of
      Present \<Rightarrow> finish p (install_plugin m (plugin_bin p) (name p) (version p)
                             (proxy_host p) (proxy_port p) (source p) s1)
    | Absent \<Rightarrow> finish p (remove_plugin m (plugin_bin p) (name p) s1)) =
   (case check_or_run m (corrective_cmd p) s1 of
      ((rc, out, err), s2) \<Rightarrow>
        if rc \<noteq> 0 then (fail_json [(''msg'', S (parse_error out))], s2)
        else (exit_json [(''changed'', B True), (''cmd'', S (corrective_cmd p)),
                         (''name'', S (name p)), (''state'', S (state_name (state p))),
                         (''stdout'', S out), (''stderr'', S err)], s2))"
  by (cases "state p")
     (simp_all add: finish_def install_plugin_def remove_plugin_def corrective_cmd_def Let_def
        split: prod.splits)

lemma main_noop:
  assumes "is_plugin_present m (plugin_bin p) (name p) s = (P, s1)"
    and "decide P (state p) = NoOp"
  shows "main m p s = (exit_json [(''changed'', B False), (''name'', S (name p)),
                                  (''state'', S (state_name (state p)))], s1)"
  using main_decide[OF assms(1)] assms(2) by simp

lemma main_corrective:
  assumes "is_plugin_present m (plugin_bin p) (name p) s = (P, s1)"
    and "decide P (state p) \<noteq> NoOp"
  shows "main m p s =
   (case check_or_run m (corrective_cmd p) s1 of
      ((rc, out, err), s2) \<Rightarrow>
        if rc \<noteq> 0 then (fail_json [(''msg'', S (parse_error out))], s2)
        else (exit_json [(''changed'', B True), (''cmd'', S (corrective_cmd p)),
                         (''name'', S (name p)), (''state'', S (state_name (state p))),
                         (''stdout'', S out), (''stderr'', S err)], s2))"
proof -
  have "main m p s =
    (case state p of
      Present \<Rightarrow> finish p (install_plugin m (plugin_bin p) (name p) (version p)
                             (proxy_host p) (proxy_port p) (source p) s1)
    | Absent \<Rightarrow> finish p (remove_plugin m (plugin_bin p) (name p) s1))"
    using main_decide[OF assms(1)] assms(2) by (cases P; cases "state p") simp_all
  then show ?thesis by (simp only: corrective_unfold)
qed

lemma check_or_run_checked:
  "check_mode m \<Longrightarrow> check_or_run m c s = ((0, ''check mode'', ''''), s)"
  by (simp add: check_or_run_def)

lemma check_or_run_real:
  "\<not> check_mode m \<Longrightarrow> command m c (world s) = (res, w')
     \<Longrightarrow> check_or_run m c s = (res, \<lparr>world = w', trace = trace s @ [c]\<rparr>)"
  by (simp add: check_or_run_def run_command_def)

text \<open>
  Claim C1. With \<open>P\<close> the answer of the probe and \<open>s1\<close> the state it leaves, \<open>main\<close> does
  what the decision table says. On NoOp it exits with \<^verbatim>\<open>changed=False\<close> in the state
  \<open>s1\<close>, having run the list command only. On Install it runs, or in check mode
  synthesizes, the install command line and reports its result; on Remove likewise with
  the remove command line; outside check mode the trace then ends with that command line.
  NoOp is decided exactly for (true, Present) and (false, Absent), Install for
  (false, Present), Remove for (true, Absent). \<open>main\<close> exits with \<^verbatim>\<open>changed=False\<close>, in
  whatever result, if and only if the pair is one of the two NoOp pairs.
\<close>

theorem main_decision:
  assumes probe: "is_plugin_present m (plugin_bin p) (name p) s = (P, s1)"
  shows "main m p s =
     (case decide P (state p) of
        NoOp \<Rightarrow> (exit_json [(''changed'', B False), (''name'', S (name p)),
                             (''state'', S (state_name (state p)))], s1)
      | Install \<Rightarrow>
          (case check_or_run m (install_cmd (plugin_bin p) (name p) (version p)
                                  (proxy_host p) (proxy_port p) (source p)) s1 of
             ((rc, out, err), s2) \<Rightarrow>
               if rc \<noteq> 0 then (fail_json [(''msg'', S (parse_error out))], s2)
               else (exit_json [(''changed'', B True),
                                (''cmd'', S (install_cmd (plugin_bin p) (name p) (version p)
                                               (proxy_host p) (proxy_port p) (source p))),
                                (''name'', S (name p)), (''state'', S (state_name (state p))),
                                (''stdout'', S out), (''stderr'', S err)], s2))
      | Remove \<Rightarrow>
          (case check_or_run m (remove_cmd (plugin_bin p) (name p)) s1 of
             ((rc, out, err), s2) \<Rightarrow>
               if rc \<noteq> 0 then (fail_json [(''msg'', S (parse_error out))], s2)
               else (exit_json [(''changed'', B True),
                                (''cmd'', S (remove_cmd (plugin_bin p) (name p))),
                                (''name'', S (name p)), (''state'', S (state_name (state p))),
                                (''stdout'', S out), (''stderr'', S err)], s2)))
    \<and> (decide P (state p) = NoOp \<longleftrightarrow> (P \<and> state p = Present) \<or> (\<not> P \<and> state p = Absent))
    \<and> (decide P (state p) = Install \<longleftrightarrow> \<not> P \<and> state p = Present)
    \<and> (decide P (state p) = Remove \<longleftrightarrow> P \<and> state p = Absent)
    \<and> ((\<exists>kw s'. main m p s = (exit_json kw, s') \<and> map_of kw ''changed'' = Some (B False))
        \<longleftrightarrow> (P \<and> state p = Present) \<or> (\<not> P \<and> state p = Absent))
    \<and> ((main m p s = (exit_json [(''changed'', B False), (''name'', S (name p)),
                                   (''state'', S (state_name (state p)))], s1)
         \<and> trace s1 = trace s @ [list_cmd p])
        \<longleftrightarrow> (P \<and> state p = Present) \<or> (\<not> P \<and> state p = Absent))
    \<and> (\<not> P \<and> state p = Present \<and> \<not> check_mode m
          \<longrightarrow> trace (snd (main m p s))
                = trace s @ [list_cmd p, install_cmd (plugin_bin p) (name p) (version p)
                                           (proxy_host p) (proxy_port p) (source p)])
    \<and> (P \<and> state p = Absent \<and> \<not> check_mode m
          \<longrightarrow> trace (snd (main m p s))
                = trace s @ [list_cmd p, remove_cmd (plugin_bin p) (name p)])"
proof -
  let ?match = "(P \<and> state p = Present) \<or> (\<not> P \<and> state p = Absent)"
  have tr1: "trace s1 = trace s @ [list_cmd p]" by (rule probe_state(3)[OF probe])
  have flow: "main m p s =
     (case decide P (state p) of
        NoOp \<Rightarrow> (exit_json [(''changed'', B False), (''name'', S (name p)),
                             (''state'', S (state_name (state p)))], s1)
      | Install \<Rightarrow>
          (case check_or_run m (install_cmd (plugin_bin p) (name p) (version p)
                                  (proxy_host p) (proxy_port p) (source p)) s1 of
             ((rc, out, err), s2) \<Rightarrow>
               if rc \<noteq> 0 then (fail_json [(''msg'', S (parse_error out))], s2)
               else (exit_json [(''changed'', B True),
                                (''cmd'', S (install_cmd (plugin_bin p) (name p) (version p)
                                               (proxy_host p) (proxy_port p) (source p))),
                                (''name'', S (name p)), (''state'', S (state_name (state p))),
                                (''stdout'', S out), (''stderr'', S err)], s2))
      | Remove \<Rightarrow>
          (case check_or_run m (remove_cmd (plugin_bin p) (name p)) s1 of
             ((rc, out, err), s2) \<Rightarrow>
               if rc \<noteq> 0 then (fail_json [(''msg'', S (parse_error out))], s2)
               else (exit_json [(''changed'', B True),
                                (''cmd'', S (remove_cmd (plugin_bin p) (name p))),
                                (''name'', S (name p)), (''state'', S (state_name (state p))),
                                (''stdout'', S out), (''stderr'', S err)], s2)))"
  proof (cases "decide P (state p)")
    case NoOp
    with main_noop[OF probe NoOp] show ?thesis by simp
  next
    case Install
    then have "state p = Present" by (cases P; cases "state p") simp_all
    then have cc: "corrective_cmd p = install_cmd (plugin_bin p) (name p) (version p)
                                        (proxy_host p) (proxy_port p) (source p)"
      by (simp add: corrective_cmd_def)
    from Install have "decide P (state p) \<noteq> NoOp" by simp
    from main_corrective[OF probe this, unfolded cc] Install show ?thesis by simp
  next
    case Remove
    then have "state p = Absent" by (cases P; cases "state p") simp_all
    then have cc: "corrective_cmd p = remove_cmd (plugin_bin p) (name p)"
      by (simp add: corrective_cmd_def)
    from Remove have "decide P (state p) \<noteq> NoOp" by simp
    from main_corrective[OF probe this, unfolded cc] Remove show ?thesis by simp
  qed
  have d1: "decide P (state p) = NoOp \<longleftrightarrow> ?match" by (rule decide_NoOp)
  have d2: "decide P (state p) = Install \<longleftrightarrow> \<not> P \<and> state p = Present"
    by (cases P; cases "state p") simp_all
  have d3: "decide P (state p) = Remove \<longleftrightarrow> P \<and> state p = Absent"
    by (cases P; cases "state p") simp_all
  have changed_true: "map_of kw ''changed'' = Some (B True)"
    if e: "main m p s = (exit_json kw, s')" and d: "decide P (state p) \<noteq> NoOp" for kw s'
  proof -
    obtain rc out err s2 where c: "check_or_run m (corrective_cmd p) s1 = ((rc, out, err), s2)"
      by (metis prod_cases3 surj_pair)
    with main_corrective[OF probe d] e show ?thesis by (auto split: if_splits)
  qed
  have strong: "(\<exists>kw s'. main m p s = (exit_json kw, s') \<and> map_of kw ''changed'' = Some (B False))
        \<longleftrightarrow> ?match"
  proof
    assume "\<exists>kw s'. main m p s = (exit_json kw, s') \<and> map_of kw ''changed'' = Some (B False)"
    then obtain kw s' where e: "main m p s = (exit_json kw, s')"
      and f: "map_of kw ''changed'' = Some (B False)" by blast
    have "decide P (state p) = NoOp"
    proof (rule ccontr)
      assume "decide P (state p) \<noteq> NoOp"
      from changed_true[OF e this] f show False by simp
    qed
    with d1 show ?match by simp
  next
    assume ?match
    with d1 have "decide P (state p) = NoOp" by simp
    from main_noop[OF probe this]
    show "\<exists>kw s'. main m p s = (exit_json kw, s') \<and> map_of kw ''changed'' = Some (B False)"
      by simp
  qed
  have exact: "(main m p s = (exit_json [(''changed'', B False), (''name'', S (name p)),
                                   (''state'', S (state_name (state p)))], s1)
         \<and> trace s1 = trace s @ [list_cmd p]) \<longleftrightarrow> ?match"
  proof
    assume "main m p s = (exit_json [(''changed'', B False), (''name'', S (name p)),
                                   (''state'', S (state_name (state p)))], s1)
         \<and> trace s1 = trace s @ [list_cmd p]"
    then have "\<exists>kw s'. main m p s = (exit_json kw, s') \<and> map_of kw ''changed'' = Some (B False)"
      by simp
    with strong show ?match by simp
  next
    assume ?match
    with d1 have "decide P (state p) = NoOp" by simp
    from main_noop[OF probe this] tr1
    show "main m p s = (exit_json [(''changed'', B False), (''name'', S (name p)),
                                   (''state'', S (state_name (state p)))], s1)
         \<and> trace s1 = trace s @ [list_cmd p]" by simp
  qed
  have executed: "trace (snd (main m p s)) = trace s @ [list_cmd p, corrective_cmd p]"
    if d: "decide P (state p) \<noteq> NoOp" and n: "\<not> check_mode m"
  proof -
    obtain res w2 where cm: "command m (corrective_cmd p) (world s1) = (res, w2)"
      by (cases "command m (corrective_cmd p) (world s1)")
    obtain rc out err where res: "res = (rc, out, err)" by (cases res)
    from main_corrective[OF probe d] check_or_run_real[OF n cm] res tr1
    show ?thesis by simp
  qed
  have inst: "trace (snd (main m p s))
                = trace s @ [list_cmd p, install_cmd (plugin_bin p) (name p) (version p)
                                           (proxy_host p) (proxy_port p) (source p)]"
    if "\<not> P \<and> state p = Present \<and> \<not> check_mode m"
  proof -
    from that d2 have "decide P (state p) \<noteq> NoOp" by simp
    from executed[OF this] that show ?thesis by (simp add: corrective_cmd_def)
  qed
  have rem: "trace (snd (main m p s))
                = trace s @ [list_cmd p, remove_cmd (plugin_bin p) (name p)]"
    if "P \<and> state p = Absent \<and> \<not> check_mode m"
  proof -
    from that d3 have "decide P (state p) \<noteq> NoOp" by simp
    from executed[OF this] that show ?thesis by (simp add: corrective_cmd_def)
  qed
  from flow d1 d2 d3 strong exact inst rem show ?thesis by blast
qed

theorem main_decision_witness:
  "is_plugin_present (sim_module False) (plugin_bin (sim_params Present))
      (name (sim_params Present)) (sim_sys True False [])
     = (True, sim_sys True False [''/bin/lp list beats''])
   \<and> main (sim_module False) (sim_params Present) (sim_sys True False [])
     = (exit_json [(''changed'', B False), (''name'', S ''beats''), (''state'', S ''present'')],
        sim_sys True False [''/bin/lp list beats''])
   \<and> is_plugin_present (sim_module False) (plugin_bin (sim_params Absent))
      (name (sim_params Absent)) (sim_sys True False [])
     = (True, sim_sys True False [''/bin/lp list beats''])
   \<and> \<not> check_mode (sim_module False)
   \<and> trace (snd (main (sim_module False) (sim_params Absent) (sim_sys True False [])))
     = [''/bin/lp list beats'', ''/bin/lp remove beats'']"
proof -
  have pr: "is_plugin_present (sim_module False) (plugin_bin (sim_params Present))
      (name (sim_params Present)) (sim_sys True False [])
     = (True, sim_sys True False [''/bin/lp list beats''])"
    using sim_probe[of False Present True False "[]"] by simp
  have pa: "is_plugin_present (sim_module False) (plugin_bin (sim_params Absent))
      (name (sim_params Absent)) (sim_sys True False [])
     = (True, sim_sys True False [''/bin/lp list beats''])"
    using sim_probe[of False Absent True False "[]"] by simp
  have nchk: "\<not> check_mode (sim_module False)" by (simp add: sim_module_def)
  have a: "main (sim_module False) (sim_params Present) (sim_sys True False [])
     = (exit_json [(''changed'', B False), (''name'', S ''beats''), (''state'', S ''present'')],
        sim_sys True False [''/bin/lp list beats''])"
    using main_decision[OF pr, THEN conjunct1] by (simp add: sim_fields)
  have b: "trace (snd (main (sim_module False) (sim_params Absent) (sim_sys True False [])))
     = [''/bin/lp list beats'', ''/bin/lp remove beats'']"
    using main_decision[OF pa, THEN conjunct2, THEN conjunct2, THEN conjunct2,
        THEN conjunct2, THEN conjunct2, THEN conjunct2, THEN conjunct2] nchk
    by (simp add: sim_fields sim_list remove_cmd_unfold sim_sys_def)
  from pr pa nchk a b show ?thesis by blast
qed

text \<open>
  Claim C5. The probe runs the command line \<^verbatim>\<open><executable> list <name>\<close>, once, and
  answers true exactly when its exit code is 0, whatever the output; every other exit
  code gives false. The probe has no failing branch: it always returns its answer.
\<close>

theorem probe_spec:
  assumes "command m (bin @ '' list '' @ nm) (world s) = ((rc, out, err), w')"
  shows "is_plugin_present m bin nm s
           = (rc = 0, \<lparr>world = w', trace = trace s @ [bin @ '' list '' @ nm]\<rparr>)"
  using assms by (simp add: probe_unfold)

theorem probe_spec_witness:
  "command (sim_module False) (''/bin/lp'' @ '' list '' @ ''beats'') (world (sim_sys False True []))
     = ((1, ''ERROR: No plugins found'', ''''), (False, True))
   \<and> is_plugin_present (sim_module False) ''/bin/lp'' ''beats'' (sim_sys False True [])
     = (False, \<lparr>world = (False, True), trace = [''/bin/lp list beats'']\<rparr>)"
proof -
  have c: "command (sim_module False) (''/bin/lp'' @ '' list '' @ ''beats'')
             (world (sim_sys False True []))
           = ((1, ''ERROR: No plugins found'', ''''), (False, True))"
    by (simp add: sim_module_def sim_sys_def sim_tool_def)
  from probe_spec[OF c] c show ?thesis by (simp add: sim_sys_def)
qed

text \<open>
  Claim C3. When proxy host and proxy port are both non-empty strings, the install command
  line is the one built without any proxy setting followed by
  \<^verbatim>\<open>-DproxyHost=<h> -DproxyPort=<p>\<close> as its last argument. When either is missing or empty,
  the command line is the one built without any proxy setting. So the command line differs
  from the proxy-free one if and only if both are non-empty.
\<close>

theorem proxy_flags:
  "(hs \<noteq> [] \<and> ps \<noteq> [] \<longrightarrow>
      install_cmd_args bin nm v (Some hs) (Some ps) src
        = install_cmd_args bin nm v None None src
            @ [''-DproxyHost='' @ hs @ '' -DproxyPort='' @ ps]
      \<and> install_cmd bin nm v (Some hs) (Some ps) src
        = install_cmd bin nm v None None src @ '' -DproxyHost='' @ hs @ '' -DproxyPort='' @ ps)
   \<and> (h = None \<or> h = Some [] \<or> port = None \<or> port = Some [] \<longrightarrow>
      install_cmd_args bin nm v h port src = install_cmd_args bin nm v None None src
      \<and> install_cmd bin nm v h port src = install_cmd bin nm v None None src)
   \<and> (install_cmd bin nm v h port src \<noteq> install_cmd bin nm v None None src
        \<longleftrightarrow> (\<exists>hs ps. h = Some hs \<and> hs \<noteq> [] \<and> port = Some ps \<and> ps \<noteq> []))"
proof (intro conjI impI)
  assume "hs \<noteq> [] \<and> ps \<noteq> []"
  then show "install_cmd_args bin nm v (Some hs) (Some ps) src
        = install_cmd_args bin nm v None None src
            @ [''-DproxyHost='' @ hs @ '' -DproxyPort='' @ ps]"
    and "install_cmd bin nm v (Some hs) (Some ps) src
        = install_cmd bin nm v None None src @ '' -DproxyHost='' @ hs @ '' -DproxyPort='' @ ps"
    by (simp_all add: install_cmd_unfold install_cmd_args_def Let_def)
next
  assume a: "h = None \<or> h = Some [] \<or> port = None \<or> port = Some []"
  then show "install_cmd_args bin nm v h port src = install_cmd_args bin nm v None None src"
    and "install_cmd bin nm v h port src = install_cmd bin nm v None None src"
    by (auto simp: install_cmd_def install_cmd_args_def Let_def)
next
  have t: "(truthy h \<and> truthy port) = (\<exists>hs ps. h = Some hs \<and> hs \<noteq> [] \<and> port = Some ps \<and> ps \<noteq> [])"
    by (cases h; cases port) auto
  have "install_cmd bin nm v h port src =
          install_cmd bin nm v None None src
            @ (if truthy h \<and> truthy port
               then '' -DproxyHost='' @ fmt_s h @ '' -DproxyPort='' @ fmt_s port else [])"
    by (simp add: install_cmd_unfold)
  then have "install_cmd bin nm v h port src \<noteq> install_cmd bin nm v None None src
        \<longleftrightarrow> truthy h \<and> truthy port"
    by (cases "truthy h \<and> truthy port") simp_all
  then show "install_cmd bin nm v h port src \<noteq> install_cmd bin nm v None None src
        \<longleftrightarrow> (\<exists>hs ps. h = Some hs \<and> hs \<noteq> [] \<and> port = Some ps \<and> ps \<noteq> [])"
    by (simp only: t)
qed

theorem proxy_flags_witness:
  "install_cmd ''/bin/lp'' ''beats'' None (Some ''proxy.local'') (Some ''3128'') None
     = ''/bin/lp install beats -DproxyHost=proxy.local -DproxyPort=3128''
   \<and> install_cmd ''/bin/lp'' ''beats'' None (Some ''proxy.local'') None None
     = ''/bin/lp install beats''
   \<and> install_cmd ''/bin/lp'' ''beats'' None None (Some ''3128'') None
     = ''/bin/lp install beats''"
proof -
  have base: "install_cmd ''/bin/lp'' ''beats'' None None None None = ''/bin/lp install beats''"
    by (simp add: install_cmd_unfold)
  from proxy_flags[of "''proxy.local''" "''3128''" "''/bin/lp''" "''beats''" None None
      "Some ''proxy.local''" None]
    proxy_flags[of "''proxy.local''" "''3128''" "''/bin/lp''" "''beats''" None None
      None "Some ''3128''"]
  show ?thesis by (simp add: base)
qed

text \<open>
  Claim C7. The install command line is \<^verbatim>\<open><executable> install <source-or-name>\<close>,
  followed by \<^verbatim>\<open>--version <version>\<close> when a version is given, then by the proxy flags;
  without a source the plugin name is the source token. It is the command line that
  \<^verbatim>\<open>install_plugin\<close> executes and the one it returns.
\<close>

theorem install_command_line:
  "install_cmd bin nm v h port src =
     bin @ '' install '' @ (if truthy src then fmt_s src else nm)
       @ (if truthy v then '' --version '' @ fmt_s v else [])
       @ (if truthy h \<and> truthy port
          then '' -DproxyHost='' @ fmt_s h @ '' -DproxyPort='' @ fmt_s port else [])
   \<and> install_cmd bin nm None None None None = bin @ '' install '' @ nm
   \<and> (x \<noteq> [] \<longrightarrow> install_cmd bin nm None None None (Some x) = bin @ '' install '' @ x)
   \<and> (ver \<noteq> [] \<longrightarrow> install_cmd bin nm (Some ver) None None None
                       = bin @ '' install '' @ nm @ '' --version '' @ ver)
   \<and> (\<not> check_mode m \<longrightarrow>
        trace (snd (install_plugin m bin nm v h port src s))
          = trace s @ [install_cmd bin nm v h port src])
   \<and> (\<forall>c cmd out err s'. install_plugin m bin nm v h port src s = (Inr (c, cmd, out, err), s')
        \<longrightarrow> cmd = install_cmd bin nm v h port src)"
proof (intro conjI impI allI)
  show "install_cmd bin nm v h port src =
     bin @ '' install '' @ (if truthy src then fmt_s src else nm)
       @ (if truthy v then '' --version '' @ fmt_s v else [])
       @ (if truthy h \<and> truthy port
          then '' -DproxyHost='' @ fmt_s h @ '' -DproxyPort='' @ fmt_s port else [])"
    by (rule install_cmd_unfold)
  show "install_cmd bin nm None None None None = bin @ '' install '' @ nm"
    by (simp add: install_cmd_unfold)
  show "install_cmd bin nm None None None (Some x) = bin @ '' install '' @ x" if "x \<noteq> []"
    using that by (simp add: install_cmd_unfold)
  show "install_cmd bin nm (Some ver) None None None
          = bin @ '' install '' @ nm @ '' --version '' @ ver" if "ver \<noteq> []"
    using that by (simp add: install_cmd_unfold)
  show "trace (snd (install_plugin m bin nm v h port src s))
          = trace s @ [install_cmd bin nm v h port src]" if "\<not> check_mode m"
    using that
    by (auto simp: install_plugin_def check_or_run_def run_command_def Let_def
          split: prod.splits)
  show "cmd = install_cmd bin nm v h port src"
    if "install_plugin m bin nm v h port src s = (Inr (c, cmd, out, err), s')"
    for c cmd out err s'
    using that
    by (auto simp: install_plugin_def Let_def split: prod.splits if_splits)
qed

theorem install_command_line_witness:
  "install_cmd ''/bin/lp'' ''logstash-input-syslog'' (Some ''3.2.0'') None None None
     = ''/bin/lp install logstash-input-syslog --version 3.2.0''
   \<and> install_cmd ''/bin/lp'' ''logstash-input-kafka'' None None None
        (Some ''/path/to/my/logstash-input-kafka.gem'')
     = ''/bin/lp install /path/to/my/logstash-input-kafka.gem''
   \<and> trace (snd (install_plugin (sim_module False) ''/bin/lp'' ''beats'' None None None None
                   (sim_sys False False [])))
     = [''/bin/lp install beats'']"
proof -
  have nc: "\<not> check_mode (sim_module False)" by (simp add: sim_module_def)
  have a: "install_cmd ''/bin/lp'' ''logstash-input-syslog'' (Some ''3.2.0'') None None None
     = ''/bin/lp install logstash-input-syslog --version 3.2.0''"
    using install_command_line[where bin = "''/bin/lp''" and nm = "''logstash-input-syslog''"
        and ver = "''3.2.0''" and v = None and h = None and port = None and src = None
        and x = "''x''" and m = "sim_module False" and s = "sim_sys False False []"]
    by simp
  have b: "install_cmd ''/bin/lp'' ''logstash-input-kafka'' None None None
        (Some ''/path/to/my/logstash-input-kafka.gem'')
     = ''/bin/lp install /path/to/my/logstash-input-kafka.gem''"
    using install_command_line[where bin = "''/bin/lp''" and nm = "''logstash-input-kafka''"
        and ver = "''3.2.0''" and v = None and h = None and port = None and src = None
        and x = "''/path/to/my/logstash-input-kafka.gem''"
        and m = "sim_module False" and s = "sim_sys False False []"]
    by simp
  have c: "trace (snd (install_plugin (sim_module False) ''/bin/lp'' ''beats'' None None None
                   None (sim_sys False False [])))
     = [''/bin/lp install beats'']"
    using install_command_line[where bin = "''/bin/lp''" and nm = "''beats''"
        and ver = "''3.2.0''" and v = None and h = None and port = None and src = None
        and x = "''x''" and m = "sim_module False" and s = "sim_sys False False []"] nc
    by (simp add: sim_sys_def)
  from a b c show ?thesis by blast
qed

text \<open>
  Claim C10. For the construction of the install command line, and so for the whole of
  \<^verbatim>\<open>install_plugin\<close>, an empty version is the same as no version, an empty proxy host or
  proxy port is the same as no proxy at all, and an empty source is the same as no source.
\<close>

theorem empty_strings_unspecified:
  "install_cmd_args bin nm (Some []) h port src = install_cmd_args bin nm None h port src
   \<and> install_cmd_args bin nm v (Some []) port src = install_cmd_args bin nm v None None src
   \<and> install_cmd_args bin nm v h (Some []) src = install_cmd_args bin nm v None None src
   \<and> install_cmd_args bin nm v h port (Some []) = install_cmd_args bin nm v h port None
   \<and> install_cmd_args bin nm (Some []) (Some []) (Some []) (Some []) = [bin, ''install'', nm]
   \<and> install_plugin m bin nm (Some []) h port src s = install_plugin m bin nm None h port src s
   \<and> install_plugin m bin nm v (Some []) port src s = install_plugin m bin nm v None None src s
   \<and> install_plugin m bin nm v h (Some []) src s = install_plugin m bin nm v None None src s
   \<and> install_plugin m bin nm v h port (Some []) s = install_plugin m bin nm v h port None s"
  by (simp add: install_plugin_def install_cmd_def install_cmd_args_def Let_def)

theorem empty_strings_unspecified_witness:
  "install_cmd_args ''/bin/lp'' ''beats'' (Some []) (Some []) (Some ''3128'') (Some [])
     = [''/bin/lp'', ''install'', ''beats'']"
  using empty_strings_unspecified[where bin = "''/bin/lp''" and nm = "''beats''"
      and v = "Some []" and h = "Some []" and port = "Some ''3128''" and src = "Some []"]
  by (simp add: install_cmd_args_def)

lemma install_plugin_checked:
  "check_mode m \<Longrightarrow> install_plugin m bin nm v h port src t
     = (Inr (True, install_cmd bin nm v h port src, ''check mode'', ''''), t)"
  by (simp add: install_plugin_def check_or_run_def)

lemma remove_plugin_checked:
  "check_mode m \<Longrightarrow> remove_plugin m bin nm t
     = (Inr (True, remove_cmd bin nm, ''check mode'', ''''), t)"
  by (simp add: remove_plugin_def check_or_run_def)

text \<open>
  Claim C4. In check mode, a run that decides a corrective action executes the list command
  and nothing else: \<^verbatim>\<open>install_plugin\<close> and \<^verbatim>\<open>remove_plugin\<close> leave the state of the host
  and the trace as they are, the result of the execution is the exit code 0, the standard
  output \<^verbatim>\<open>check mode\<close> and an empty standard error, and \<open>main\<close> exits with
  \<^verbatim>\<open>changed=True\<close>, that standard output and that standard error.
\<close>

theorem check_mode_synthesized:
  assumes chk: "check_mode m"
    and probe: "is_plugin_present m (plugin_bin p) (name p) s = (P, s1)"
    and act: "decide P (state p) \<noteq> NoOp"
  shows "main m p s =
           (exit_json [(''changed'', B True), (''cmd'', S (corrective_cmd p)),
                       (''name'', S (name p)), (''state'', S (state_name (state p))),
                       (''stdout'', S ''check mode''), (''stderr'', S '''')], s1)
    \<and> check_or_run m (corrective_cmd p) s1 = ((0, ''check mode'', ''''), s1)
    \<and> trace s1 = trace s @ [list_cmd p]
    \<and> world s1 = snd (command m (list_cmd p) (world s))
    \<and> list_cmd p \<noteq> corrective_cmd p
    \<and> install_plugin m bin nm v h port src t
        = (Inr (True, install_cmd bin nm v h port src, ''check mode'', ''''), t)
    \<and> remove_plugin m bin nm t = (Inr (True, remove_cmd bin nm, ''check mode'', ''''), t)"
proof -
  have run: "check_or_run m (corrective_cmd p) s1 = ((0, ''check mode'', ''''), s1)"
    using chk by (rule check_or_run_checked)
  have "main m p s =
           (exit_json [(''changed'', B True), (''cmd'', S (corrective_cmd p)),
                       (''name'', S (name p)), (''state'', S (state_name (state p))),
                       (''stdout'', S ''check mode''), (''stderr'', S '''')], s1)"
    using main_corrective[OF probe act] by (simp add: run)
  with run probe_state(2,3)[OF probe] list_cmd_not_corrective[of p]
    install_plugin_checked[OF chk] remove_plugin_checked[OF chk]
  show ?thesis by simp
qed

theorem check_mode_synthesized_witness:
  "check_mode (sim_module True)
   \<and> is_plugin_present (sim_module True) (plugin_bin (sim_params Absent))
        (name (sim_params Absent)) (sim_sys True False [])
       = (True, sim_sys True False [''/bin/lp list beats''])
   \<and> decide True (state (sim_params Absent)) \<noteq> NoOp
   \<and> main (sim_module True) (sim_params Absent) (sim_sys True False [])
       = (exit_json [(''changed'', B True), (''cmd'', S ''/bin/lp remove beats''),
                     (''name'', S ''beats''), (''state'', S ''absent''),
                     (''stdout'', S ''check mode''), (''stderr'', S '''')],
          sim_sys True False [''/bin/lp list beats''])"
proof -
  have chk: "check_mode (sim_module True)" by (simp add: sim_module_def)
  have pr: "is_plugin_present (sim_module True) (plugin_bin (sim_params Absent))
        (name (sim_params Absent)) (sim_sys True False [])
       = (True, sim_sys True False [''/bin/lp list beats''])"
    using sim_probe[of True Absent True False "[]"] by simp
  have act: "decide True (state (sim_params Absent)) \<noteq> NoOp" by (simp add: sim_fields)
  have "main (sim_module True) (sim_params Absent) (sim_sys True False [])
       = (exit_json [(''changed'', B True), (''cmd'', S ''/bin/lp remove beats''),
                     (''name'', S ''beats''), (''state'', S ''absent''),
                     (''stdout'', S ''check mode''), (''stderr'', S '''')],
          sim_sys True False [''/bin/lp list beats''])"
    using check_mode_synthesized[OF chk pr act, THEN conjunct1]
    by (simp add: sim_corrective sim_fields)
  with chk pr act show ?thesis by blast
qed

text \<open>
  Claim C6. A corrective command that exits with a non-zero code ends the run in
  \<^verbatim>\<open>fail_json\<close>, whose only field is \<^verbatim>\<open>msg\<close>, the parsed reason; the commands executed are
  the list command and the corrective command, once each. Conversely a run that ends in
  \<^verbatim>\<open>fail_json\<close> is outside check mode, has decided a corrective action, and its corrective
  command has exited with a non-zero code.
\<close>

theorem corrective_failure:
  assumes probe: "is_plugin_present m (plugin_bin p) (name p) s = (P, s1)"
  shows "(decide P (state p) \<noteq> NoOp \<and> \<not> check_mode m
            \<and> command m (corrective_cmd p) (world s1) = ((rc, out, err), w2) \<and> rc \<noteq> 0
          \<longrightarrow> main m p s = (fail_json [(''msg'', S (parse_error out))],
                            \<lparr>world = w2, trace = trace s @ [list_cmd p, corrective_cmd p]\<rparr>))
    \<and> (main m p s = (fail_json kw, s')
          \<longrightarrow> decide P (state p) \<noteq> NoOp \<and> \<not> check_mode m
              \<and> (\<exists>rc' out' err'. rc' \<noteq> 0
                    \<and> command m (corrective_cmd p) (world s1) = ((rc', out', err'), world s')
                    \<and> kw = [(''msg'', S (parse_error out'))])
              \<and> trace s' = trace s @ [list_cmd p, corrective_cmd p])"
proof (intro conjI impI)
  assume a: "decide P (state p) \<noteq> NoOp \<and> \<not> check_mode m
            \<and> command m (corrective_cmd p) (world s1) = ((rc, out, err), w2) \<and> rc \<noteq> 0"
  then have "check_or_run m (corrective_cmd p) s1
               = ((rc, out, err), \<lparr>world = w2, trace = trace s1 @ [corrective_cmd p]\<rparr>)"
    by (simp add: check_or_run_real)
  with a main_corrective[OF probe] probe_state(3)[OF probe]
  show "main m p s = (fail_json [(''msg'', S (parse_error out))],
                      \<lparr>world = w2, trace = trace s @ [list_cmd p, corrective_cmd p]\<rparr>)"
    by simp
next
  assume f: "main m p s = (fail_json kw, s')"
  show act: "decide P (state p) \<noteq> NoOp"
  proof
    assume "decide P (state p) = NoOp"
    from main_noop[OF probe this] f show False by simp
  qed
  show nchk: "\<not> check_mode m"
  proof
    assume "check_mode m"
    then have "check_or_run m (corrective_cmd p) s1 = ((0, ''check mode'', ''''), s1)"
      by (rule check_or_run_checked)
    with main_corrective[OF probe act] f show False by simp
  qed
  obtain rc' out' err' w2 where c: "command m (corrective_cmd p) (world s1) = ((rc', out', err'), w2)"
    by (metis prod_cases3 surj_pair)
  with nchk have r: "check_or_run m (corrective_cmd p) s1
               = ((rc', out', err'), \<lparr>world = w2, trace = trace s1 @ [corrective_cmd p]\<rparr>)"
    by (simp add: check_or_run_real)
  from main_corrective[OF probe act] r f
  have nz: "rc' \<noteq> 0" and kw: "kw = [(''msg'', S (parse_error out'))]"
    and s': "s' = \<lparr>world = w2, trace = trace s1 @ [corrective_cmd p]\<rparr>"
    by (auto split: if_splits)
  from c nz kw s'
  show "\<exists>rc' out' err'. rc' \<noteq> 0
          \<and> command m (corrective_cmd p) (world s1) = ((rc', out', err'), world s')
          \<and> kw = [(''msg'', S (parse_error out'))]"
    by auto
  from s' probe_state(3)[OF probe]
  show "trace s' = trace s @ [list_cmd p, corrective_cmd p]" by simp
qed

theorem corrective_failure_witness:
  "is_plugin_present (sim_module False) (plugin_bin (sim_params Present))
        (name (sim_params Present)) (sim_sys False True [])
       = (False, sim_sys False True [''/bin/lp list beats''])
   \<and> decide False (state (sim_params Present)) \<noteq> NoOp
   \<and> \<not> check_mode (sim_module False)
   \<and> command (sim_module False) (corrective_cmd (sim_params Present))
        (world (sim_sys False True [''/bin/lp list beats'']))
       = ((1, ''ERROR: Installation aborted, reason: network is down '', ''''), (False, False))
   \<and> main (sim_module False) (sim_params Present) (sim_sys False True [])
       = (fail_json [(''msg'', S ''network is down'')],
          sim_sys False False [''/bin/lp list beats'', ''/bin/lp install beats''])"
proof -
  have pr: "is_plugin_present (sim_module False) (plugin_bin (sim_params Present))
        (name (sim_params Present)) (sim_sys False True [])
       = (False, sim_sys False True [''/bin/lp list beats''])"
    using sim_probe[of False Present False True "[]"] by simp
  have act: "decide False (state (sim_params Present)) \<noteq> NoOp" by (simp add: sim_fields)
  have nchk: "\<not> check_mode (sim_module False)" by (simp add: sim_module_def)
  have c: "command (sim_module False) (corrective_cmd (sim_params Present))
        (world (sim_sys False True [''/bin/lp list beats'']))
       = ((1, ''ERROR: Installation aborted, reason: network is down '', ''''), (False, False))"
    by (simp add: sim_corrective sim_module_def sim_sys_def sim_tool_def)
  have pe: "parse_error ''ERROR: Installation aborted, reason: network is down ''
              = ''network is down''"
    by (simp add: parse_error_def strip_def lstrip_def rstrip_def isspace_def)
  have "main (sim_module False) (sim_params Present) (sim_sys False True [])
       = (fail_json [(''msg'', S ''network is down'')],
          sim_sys False False [''/bin/lp list beats'', ''/bin/lp install beats''])"
    using corrective_failure[where rc = 1
          and out = "''ERROR: Installation aborted, reason: network is down ''"
          and err = "''''" and ?w2.0 = "(False, False)", OF pr, THEN conjunct1] act nchk c
    by (simp add: pe sim_corrective sim_list sim_sys_def)
  with pr act nchk c show ?thesis by blast
qed

lemma sim_main_check:
  "main (sim_module True) (sim_params Present) (sim_sys False False tr)
     = (exit_json [(''changed'', B True), (''cmd'', S ''/bin/lp install beats''),
                   (''name'', S ''beats''), (''state'', S ''present''),
                   (''stdout'', S ''check mode''), (''stderr'', S '''')],
        sim_sys False False (tr @ [''/bin/lp list beats'']))"
  using main_corrective[OF sim_probe[of True Present False False tr]]
  by (simp add: sim_fields sim_corrective check_or_run_def sim_module_def)

lemma sim_main_offline:
  "main (sim_module False) (sim_params Present) (sim_sys False True tr)
     = (fail_json [(''msg'', S ''network is down'')],
        sim_sys False False (tr @ [''/bin/lp list beats'', ''/bin/lp install beats'']))"
  using main_corrective[OF sim_probe[of False Present False True tr]]
  by (simp add: sim_fields sim_corrective check_or_run_def run_command_def sim_module_def
        sim_sys_def sim_tool_def parse_error_def strip_def lstrip_def rstrip_def isspace_def)

lemma sim_main_install:
  "main (sim_module False) (sim_params Present) (sim_sys False False tr)
     = (exit_json [(''changed'', B True), (''cmd'', S ''/bin/lp install beats''),
                   (''name'', S ''beats''), (''state'', S ''present''),
                   (''stdout'', S ''Installation successful''), (''stderr'', S '''')],
        sim_sys True False (tr @ [''/bin/lp list beats'', ''/bin/lp install beats'']))"
  using main_corrective[OF sim_probe[of False Present False False tr]]
  by (simp add: sim_fields sim_corrective check_or_run_def run_command_def sim_module_def
        sim_sys_def sim_tool_def)

lemma sim_reflects: "reflects_mutation (sim_module c) (sim_params Present)"
  by (auto simp: reflects_mutation_def sim_corrective sim_list sim_fields sim_module_def
        sim_tool_def split: if_splits)

lemma sim_repeatable: "list_repeatable (sim_module c) (sim_params Present)"
  by (auto simp: list_repeatable_def sim_list sim_module_def sim_tool_def)

lemma flaky_cmds:
  "list_cmd (sim_params Present) = ''/bin/lp list beats''"
  "corrective_cmd (sim_params Present) = ''/bin/lp install beats''"
  by (simp_all add: sim_list sim_corrective)

lemma flaky_reflects: "reflects_mutation flaky_module (sim_params Present)"
  by (simp add: reflects_mutation_def flaky_cmds sim_fields flaky_module_def flaky_tool_def)

lemma flaky_first:
  "main flaky_module (sim_params Present) (flaky_sys True [])
     = (exit_json [(''changed'', B False), (''name'', S ''beats''), (''state'', S ''present'')],
        flaky_sys False [''/bin/lp list beats''])"
  by (simp add: main_def probe_unfold sim_fields flaky_module_def flaky_sys_def flaky_tool_def)

lemma flaky_second:
  "main flaky_module (sim_params Present) (flaky_sys False [''/bin/lp list beats''])
     = (exit_json [(''changed'', B True), (''cmd'', S ''/bin/lp install beats''),
                   (''name'', S ''beats''), (''state'', S ''present''),
                   (''stdout'', S ''Installation successful''), (''stderr'', S '''')],
        flaky_sys True [''/bin/lp list beats'', ''/bin/lp list beats'',
                        ''/bin/lp install beats''])"
proof -
  have pr: "is_plugin_present flaky_module (plugin_bin (sim_params Present))
              (name (sim_params Present)) (flaky_sys False [''/bin/lp list beats''])
            = (False, flaky_sys True [''/bin/lp list beats'', ''/bin/lp list beats''])"
    by (simp add: probe_unfold sim_fields flaky_module_def flaky_sys_def flaky_tool_def)
  show ?thesis
    using main_corrective[OF pr]
    by (simp add: sim_fields sim_corrective check_or_run_def run_command_def flaky_module_def
          flaky_sys_def flaky_tool_def)
qed

text \<open>
  Claim C8, as amended. A result with \<^verbatim>\<open>changed=True\<close> comes from a run that decided a
  corrective action, and carries its command line as \<^verbatim>\<open>cmd\<close>. Outside check mode that
  command was executed, once, and its exit code was 0; in check mode it was not executed
  and the run ends in the state the probe left. A no-op run exits with
  \<^verbatim>\<open>changed=False\<close> and its result has no \<^verbatim>\<open>cmd\<close>, \<^verbatim>\<open>stdout\<close> or \<^verbatim>\<open>stderr\<close> field.
  Every result has \<^verbatim>\<open>changed=True\<close> exactly when a corrective action was decided.
\<close>

theorem changed_invariant:
  assumes probe: "is_plugin_present m (plugin_bin p) (name p) s = (P, s1)"
  shows "(main m p s = (exit_json kw, s') \<and> map_of kw ''changed'' = Some (B True)
          \<longrightarrow> decide P (state p) \<noteq> NoOp
              \<and> map_of kw ''cmd'' = Some (S (corrective_cmd p))
              \<and> (check_mode m \<longrightarrow> s' = s1)
              \<and> (\<not> check_mode m \<longrightarrow>
                    (\<exists>out err. command m (corrective_cmd p) (world s1)
                                 = ((0, out, err), world s'))
                    \<and> trace s' = trace s @ [list_cmd p, corrective_cmd p]))
    \<and> (decide P (state p) = NoOp
          \<longrightarrow> (\<exists>kw0. main m p s = (exit_json kw0, s1)
                    \<and> map_of kw0 ''changed'' = Some (B False)
                    \<and> map_of kw0 ''cmd'' = None
                    \<and> map_of kw0 ''stdout'' = None
                    \<and> map_of kw0 ''stderr'' = None)
              \<and> trace s1 = trace s @ [list_cmd p])
    \<and> (main m p s = (exit_json kw, s')
          \<longrightarrow> map_of kw ''changed'' = Some (B (decide P (state p) \<noteq> NoOp)))"
proof -
  have noop: "main m p s = (exit_json [(''changed'', B False), (''name'', S (name p)),
                                       (''state'', S (state_name (state p)))], s1)"
    if "decide P (state p) = NoOp"
    using main_noop[OF probe that] .
  have act: "\<exists>rc out err s2. check_or_run m (corrective_cmd p) s1 = ((rc, out, err), s2)
               \<and> rc = 0 \<and> s' = s2
               \<and> kw = [(''changed'', B True), (''cmd'', S (corrective_cmd p)),
                        (''name'', S (name p)), (''state'', S (state_name (state p))),
                        (''stdout'', S out), (''stderr'', S err)]"
    if e: "main m p s = (exit_json kw, s')" and d: "decide P (state p) \<noteq> NoOp"
  proof -
    obtain rc out err s2 where c: "check_or_run m (corrective_cmd p) s1 = ((rc, out, err), s2)"
      by (metis prod_cases3 surj_pair)
    with main_corrective[OF probe d] e show ?thesis by (auto split: if_splits)
  qed
  have third: "map_of kw ''changed'' = Some (B (decide P (state p) \<noteq> NoOp))"
    if e: "main m p s = (exit_json kw, s')"
  proof (cases "decide P (state p) = NoOp")
    case True
    with noop[OF True] e show ?thesis by auto
  next
    case False
    with act[OF e False] show ?thesis by auto
  qed
  have first: "decide P (state p) \<noteq> NoOp
              \<and> map_of kw ''cmd'' = Some (S (corrective_cmd p))
              \<and> (check_mode m \<longrightarrow> s' = s1)
              \<and> (\<not> check_mode m \<longrightarrow>
                    (\<exists>out err. command m (corrective_cmd p) (world s1)
                                 = ((0, out, err), world s'))
                    \<and> trace s' = trace s @ [list_cmd p, corrective_cmd p])"
    if e: "main m p s = (exit_json kw, s')" and ch: "map_of kw ''changed'' = Some (B True)"
  proof -
    from third[OF e] ch have d: "decide P (state p) \<noteq> NoOp" by simp
    from act[OF e d] obtain out err where
      c: "check_or_run m (corrective_cmd p) s1 = ((0, out, err), s')"
      and kw: "kw = [(''changed'', B True), (''cmd'', S (corrective_cmd p)),
                        (''name'', S (name p)), (''state'', S (state_name (state p))),
                        (''stdout'', S out), (''stderr'', S err)]"
      by blast
    have chk: "s' = s1" if "check_mode m"
      using c check_or_run_checked[OF that, of "corrective_cmd p" s1] by simp
    have real: "(\<exists>out err. command m (corrective_cmd p) (world s1)
                                 = ((0, out, err), world s'))
                    \<and> trace s' = trace s @ [list_cmd p, corrective_cmd p]"
      if n: "\<not> check_mode m"
    proof -
      obtain res w2 where cm: "command m (corrective_cmd p) (world s1) = (res, w2)"
        by (cases "command m (corrective_cmd p) (world s1)")
      from check_or_run_real[OF n cm] c
      have "res = (0, out, err)" and "s' = \<lparr>world = w2, trace = trace s1 @ [corrective_cmd p]\<rparr>"
        by simp_all
      with cm probe_state(3)[OF probe] show ?thesis by simp
    qed
    from d kw chk real show ?thesis by simp
  qed
  have second: "(\<exists>kw0. main m p s = (exit_json kw0, s1)
                    \<and> map_of kw0 ''changed'' = Some (B False)
                    \<and> map_of kw0 ''cmd'' = None
                    \<and> map_of kw0 ''stdout'' = None
                    \<and> map_of kw0 ''stderr'' = None)
              \<and> trace s1 = trace s @ [list_cmd p]"
    if d: "decide P (state p) = NoOp"
    using noop[OF d] probe_state(3)[OF probe] by simp
  from first second third show ?thesis by blast
qed

theorem changed_invariant_witness:
  "is_plugin_present (sim_module False) (plugin_bin (sim_params Present))
        (name (sim_params Present)) (sim_sys False False [])
       = (False, sim_sys False False [''/bin/lp list beats''])
   \<and> main (sim_module False) (sim_params Present) (sim_sys False False [])
       = (exit_json [(''changed'', B True), (''cmd'', S ''/bin/lp install beats''),
                     (''name'', S ''beats''), (''state'', S ''present''),
                     (''stdout'', S ''Installation successful''), (''stderr'', S '''')],
          sim_sys True False [''/bin/lp list beats'', ''/bin/lp install beats''])
   \<and> decide False (state (sim_params Present)) \<noteq> NoOp
   \<and> trace (sim_sys True False [''/bin/lp list beats'', ''/bin/lp install beats''])
       = trace (sim_sys False False [])
           @ [list_cmd (sim_params Present), corrective_cmd (sim_params Present)]
   \<and> is_plugin_present (sim_module True) (plugin_bin (sim_params Present))
        (name (sim_params Present)) (sim_sys False False [])
       = (False, sim_sys False False [''/bin/lp list beats''])
   \<and> check_mode (sim_module True)
   \<and> main (sim_module True) (sim_params Present) (sim_sys False False [])
       = (exit_json [(''changed'', B True), (''cmd'', S ''/bin/lp install beats''),
                     (''name'', S ''beats''), (''state'', S ''present''),
                     (''stdout'', S ''check mode''), (''stderr'', S '''')],
          sim_sys False False [''/bin/lp list beats''])
   \<and> map_of [(''changed'', B True), (''cmd'', S ''/bin/lp install beats''),
              (''name'', S ''beats''), (''state'', S ''present''),
              (''stdout'', S ''check mode''), (''stderr'', S '''')] ''cmd''
       = Some (S (corrective_cmd (sim_params Present)))"
proof -
  have pr: "is_plugin_present (sim_module False) (plugin_bin (sim_params Present))
        (name (sim_params Present)) (sim_sys False False [])
       = (False, sim_sys False False [''/bin/lp list beats''])"
    using sim_probe[of False Present False False "[]"] by simp
  have prc: "is_plugin_present (sim_module True) (plugin_bin (sim_params Present))
        (name (sim_params Present)) (sim_sys False False [])
       = (False, sim_sys False False [''/bin/lp list beats''])"
    using sim_probe[of True Present False False "[]"] by simp
  have nchk: "\<not> check_mode (sim_module False)" by (simp add: sim_module_def)
  have chk: "check_mode (sim_module True)" by (simp add: sim_module_def)
  have run: "main (sim_module False) (sim_params Present) (sim_sys False False [])
       = (exit_json [(''changed'', B True), (''cmd'', S ''/bin/lp install beats''),
                     (''name'', S ''beats''), (''state'', S ''present''),
                     (''stdout'', S ''Installation successful''), (''stderr'', S '''')],
          sim_sys True False [''/bin/lp list beats'', ''/bin/lp install beats''])"
    using sim_main_install[of "[]"] by simp
  have runc: "main (sim_module True) (sim_params Present) (sim_sys False False [])
       = (exit_json [(''changed'', B True), (''cmd'', S ''/bin/lp install beats''),
                     (''name'', S ''beats''), (''state'', S ''present''),
                     (''stdout'', S ''check mode''), (''stderr'', S '''')],
          sim_sys False False [''/bin/lp list beats''])"
    using sim_main_check[of "[]"] by simp
  have a: "decide False (state (sim_params Present)) \<noteq> NoOp
    \<and> trace (sim_sys True False [''/bin/lp list beats'', ''/bin/lp install beats''])
       = trace (sim_sys False False [])
           @ [list_cmd (sim_params Present), corrective_cmd (sim_params Present)]"
    using changed_invariant[OF pr, THEN conjunct1, rule_format, OF conjI, OF run] nchk
    by (simp add: sim_corrective sim_list sim_fields sim_sys_def)
  have b: "map_of [(''changed'', B True), (''cmd'', S ''/bin/lp install beats''),
              (''name'', S ''beats''), (''state'', S ''present''),
              (''stdout'', S ''check mode''), (''stderr'', S '''')] ''cmd''
       = Some (S (corrective_cmd (sim_params Present)))"
    using changed_invariant[OF prc, THEN conjunct1, rule_format, OF conjI, OF runc] chk
    by (simp add: sim_corrective)
  from pr run a prc chk runc b show ?thesis by blast
qed

text \<open>
  Claim C8 as stated fails in check mode: the run below reports \<^verbatim>\<open>changed=True\<close>, yet
  the only command executed is the list command and the host is as it was.
\<close>

theorem check_mode_changed_without_command:
  "check_mode (sim_module True)
   \<and> main (sim_module True) (sim_params Present) (sim_sys False False [])
       = (exit_json [(''changed'', B True), (''cmd'', S ''/bin/lp install beats''),
                     (''name'', S ''beats''), (''state'', S ''present''),
                     (''stdout'', S ''check mode''), (''stderr'', S '''')],
          sim_sys False False [''/bin/lp list beats''])
   \<and> trace (snd (main (sim_module True) (sim_params Present) (sim_sys False False [])))
       = [''/bin/lp list beats'']
   \<and> world (snd (main (sim_module True) (sim_params Present) (sim_sys False False [])))
       = (False, False)"
proof -
  have chk: "check_mode (sim_module True)" by (simp add: sim_module_def)
  have run: "main (sim_module True) (sim_params Present) (sim_sys False False [])
       = (exit_json [(''changed'', B True), (''cmd'', S ''/bin/lp install beats''),
                     (''name'', S ''beats''), (''state'', S ''present''),
                     (''stdout'', S ''check mode''), (''stderr'', S '''')],
          sim_sys False False [''/bin/lp list beats''])"
    using sim_main_check[of "[]"] by simp
  from chk run show ?thesis by (simp add: sim_sys_def)
qed

text \<open>
  Claim C9, as amended. Let a run end in \<^verbatim>\<open>exit_json\<close>. If it ran outside check mode and
  reported \<^verbatim>\<open>changed=True\<close>, and the list command reflects the mutation
  (\<open>reflects_mutation\<close>), the run that follows is a no-op. If it reported
  \<^verbatim>\<open>changed=False\<close>, in check mode or not, and the list command gives the same answer twice
  in a row (\<open>list_repeatable\<close>), the run that follows is a no-op. A no-op exits with
  \<^verbatim>\<open>changed=False\<close> and executes the list command only.
\<close>

theorem second_run_unchanged:
  assumes first: "main m p s = (exit_json kw, s1)"
  shows "(\<not> check_mode m \<and> map_of kw ''changed'' = Some (B True) \<and> reflects_mutation m p
          \<longrightarrow> main m p s1 =
                (exit_json [(''changed'', B False), (''name'', S (name p)),
                            (''state'', S (state_name (state p)))],
                 \<lparr>world = snd (command m (list_cmd p) (world s1)),
                  trace = trace s1 @ [list_cmd p]\<rparr>))
    \<and> (map_of kw ''changed'' = Some (B False) \<and> list_repeatable m p
          \<longrightarrow> main m p s1 =
                (exit_json [(''changed'', B False), (''name'', S (name p)),
                            (''state'', S (state_name (state p)))],
                 \<lparr>world = snd (command m (list_cmd p) (world s1)),
                  trace = trace s1 @ [list_cmd p]\<rparr>))"
proof -
  obtain P s0 where probe: "is_plugin_present m (plugin_bin p) (name p) s = (P, s0)"
    by (cases "is_plugin_present m (plugin_bin p) (name p) s")
  define P2 where "P2 = (fst (fst (command m (list_cmd p) (world s1))) = 0)"
  have probe2: "is_plugin_present m (plugin_bin p) (name p) s1 =
                  (P2, \<lparr>world = snd (command m (list_cmd p) (world s1)),
                        trace = trace s1 @ [list_cmd p]\<rparr>)"
    by (simp add: probe_unfold P2_def list_cmd_def)
  have fin: "main m p s1 =
                (exit_json [(''changed'', B False), (''name'', S (name p)),
                            (''state'', S (state_name (state p)))],
                 \<lparr>world = snd (command m (list_cmd p) (world s1)),
                  trace = trace s1 @ [list_cmd p]\<rparr>)"
    if "decide P2 (state p) = NoOp"
    using main_noop[OF probe2 that] .
  have after_change: "decide P2 (state p) = NoOp"
    if nchk: "\<not> check_mode m" and ch: "map_of kw ''changed'' = Some (B True)"
      and refl: "reflects_mutation m p"
  proof -
    have d: "decide P (state p) \<noteq> NoOp"
    proof
      assume "decide P (state p) = NoOp"
      from main_noop[OF probe this] first ch show False by auto
    qed
    obtain res w2 where cm: "command m (corrective_cmd p) (world s0) = (res, w2)"
      by (cases "command m (corrective_cmd p) (world s0)")
    obtain rc out err where res: "res = (rc, out, err)" by (cases res)
    from main_corrective[OF probe d] check_or_run_real[OF nchk cm] first res
    have rc: "rc = 0" and s1: "s1 = \<lparr>world = w2, trace = trace s0 @ [corrective_cmd p]\<rparr>"
      by (auto split: if_splits)
    from cm res rc have ok: "fst (fst (command m (corrective_cmd p) (world s0))) = 0"
      and w2: "w2 = snd (command m (corrective_cmd p) (world s0))"
      by simp_all
    from refl ok have "(fst (fst (command m (list_cmd p)
                         (snd (command m (corrective_cmd p) (world s0))))) = 0)
                       = (state p = Present)"
      unfolding reflects_mutation_def by blast
    with s1 w2 have "P2 = (state p = Present)" by (simp add: P2_def)
    then show ?thesis by (cases "state p") simp_all
  qed
  have after_noop: "decide P2 (state p) = NoOp"
    if un: "map_of kw ''changed'' = Some (B False)" and rep: "list_repeatable m p"
  proof -
    have d: "decide P (state p) = NoOp"
    proof (rule ccontr)
      assume n: "decide P (state p) \<noteq> NoOp"
      obtain rc out err s2 where
        c: "check_or_run m (corrective_cmd p) s0 = ((rc, out, err), s2)"
        by (metis prod_cases3 surj_pair)
      with main_corrective[OF probe n] first un show False by (auto split: if_splits)
    qed
    from main_noop[OF probe d] first have "s1 = s0" by simp
    with probe_state(2)[OF probe]
    have "world s1 = snd (command m (list_cmd p) (world s))" by simp
    with rep probe_state(1)[OF probe] have "P2 = P"
      by (simp add: P2_def list_repeatable_def)
    with d show ?thesis by simp
  qed
  from fin after_change after_noop show ?thesis by blast
qed

theorem second_run_unchanged_witness:
  "main (sim_module False) (sim_params Present) (sim_sys False False [])
       = (exit_json [(''changed'', B True), (''cmd'', S ''/bin/lp install beats''),
                     (''name'', S ''beats''), (''state'', S ''present''),
                     (''stdout'', S ''Installation successful''), (''stderr'', S '''')],
          sim_sys True False [''/bin/lp list beats'', ''/bin/lp install beats''])
   \<and> \<not> check_mode (sim_module False)
   \<and> reflects_mutation (sim_module False) (sim_params Present)
   \<and> main (sim_module False) (sim_params Present)
        (sim_sys True False [''/bin/lp list beats'', ''/bin/lp install beats''])
       = (exit_json [(''changed'', B False), (''name'', S ''beats''),
                     (''state'', S ''present'')],
          sim_sys True False [''/bin/lp list beats'', ''/bin/lp install beats'',
                              ''/bin/lp list beats''])
   \<and> list_repeatable (sim_module True) (sim_params Present)
   \<and> main (sim_module True) (sim_params Present)
        (sim_sys True False [''/bin/lp list beats'', ''/bin/lp install beats''])
       = (exit_json [(''changed'', B False), (''name'', S ''beats''),
                     (''state'', S ''present'')],
          sim_sys True False [''/bin/lp list beats'', ''/bin/lp install beats'',
                              ''/bin/lp list beats''])
   \<and> main (sim_module True) (sim_params Present)
        (sim_sys True False [''/bin/lp list beats'', ''/bin/lp install beats'',
                              ''/bin/lp list beats''])
       = (exit_json [(''changed'', B False), (''name'', S ''beats''),
                     (''state'', S ''present'')],
          sim_sys True False [''/bin/lp list beats'', ''/bin/lp install beats'',
                              ''/bin/lp list beats'', ''/bin/lp list beats''])"
proof -
  have nchk: "\<not> check_mode (sim_module False)" by (simp add: sim_module_def)
  have first: "main (sim_module False) (sim_params Present) (sim_sys False False [])
       = (exit_json [(''changed'', B True), (''cmd'', S ''/bin/lp install beats''),
                     (''name'', S ''beats''), (''state'', S ''present''),
                     (''stdout'', S ''Installation successful''), (''stderr'', S '''')],
          sim_sys True False [''/bin/lp list beats'', ''/bin/lp install beats''])"
    using sim_main_install[of "[]"] by simp
  have second: "main (sim_module False) (sim_params Present)
        (sim_sys True False [''/bin/lp list beats'', ''/bin/lp install beats''])
       = (exit_json [(''changed'', B False), (''name'', S ''beats''),
                     (''state'', S ''present'')],
          sim_sys True False [''/bin/lp list beats'', ''/bin/lp install beats'',
                              ''/bin/lp list beats''])"
    using second_run_unchanged[OF first, THEN conjunct1] nchk sim_reflects[of False]
    by (simp add: sim_fields sim_list sim_sys_def sim_module_def sim_tool_def)
  have chk_first: "main (sim_module True) (sim_params Present)
        (sim_sys True False [''/bin/lp list beats'', ''/bin/lp install beats''])
       = (exit_json [(''changed'', B False), (''name'', S ''beats''),
                     (''state'', S ''present'')],
          sim_sys True False [''/bin/lp list beats'', ''/bin/lp install beats'',
                              ''/bin/lp list beats''])"
    using main_noop[OF sim_probe[of True Present True False
          "[''/bin/lp list beats'', ''/bin/lp install beats'']"]]
    by (simp add: sim_fields)
  have chk_second: "main (sim_module True) (sim_params Present)
        (sim_sys True False [''/bin/lp list beats'', ''/bin/lp install beats'',
                              ''/bin/lp list beats''])
       = (exit_json [(''changed'', B False), (''name'', S ''beats''),
                     (''state'', S ''present'')],
          sim_sys True False [''/bin/lp list beats'', ''/bin/lp install beats'',
                              ''/bin/lp list beats'', ''/bin/lp list beats''])"
    using second_run_unchanged[OF chk_first, THEN conjunct2] sim_repeatable[of True]
    by (simp add: sim_fields sim_list sim_sys_def sim_module_def sim_tool_def)
  from first nchk sim_reflects[of False] second sim_repeatable[of True] chk_first chk_second
  show ?thesis by blast
qed

text \<open>
  Claim C9 as stated fails in three ways, each against a tool for which
  \<open>reflects_mutation\<close> holds. In check mode, where nothing is mutated, two runs in
  succession both report \<^verbatim>\<open>changed=True\<close>. After a run that fails while the network is
  down, the next run reports \<^verbatim>\<open>changed=True\<close>. With a list command that does not give
  the same answer twice, a run reporting \<^verbatim>\<open>changed=False\<close> is followed by one reporting
  \<^verbatim>\<open>changed=True\<close>.
\<close>

theorem check_mode_not_idempotent:
  "reflects_mutation (sim_module True) (sim_params Present)
   \<and> list_repeatable (sim_module True) (sim_params Present)
   \<and> map_of (case fst (main (sim_module True) (sim_params Present)
                (snd (main (sim_module True) (sim_params Present) (sim_sys False False []))))
             of exit_json kw \<Rightarrow> kw | fail_json kw \<Rightarrow> kw) ''changed'' = Some (B True)
   \<and> reflects_mutation (sim_module False) (sim_params Present)
   \<and> list_repeatable (sim_module False) (sim_params Present)
   \<and> fst (main (sim_module False) (sim_params Present) (sim_sys False True []))
       = fail_json [(''msg'', S ''network is down'')]
   \<and> map_of (case fst (main (sim_module False) (sim_params Present)
                (snd (main (sim_module False) (sim_params Present) (sim_sys False True []))))
             of exit_json kw \<Rightarrow> kw | fail_json kw \<Rightarrow> kw) ''changed'' = Some (B True)
   \<and> reflects_mutation flaky_module (sim_params Present)
   \<and> \<not> check_mode flaky_module
   \<and> map_of (case fst (main flaky_module (sim_params Present) (flaky_sys True []))
             of exit_json kw \<Rightarrow> kw | fail_json kw \<Rightarrow> kw) ''changed'' = Some (B False)
   \<and> map_of (case fst (main flaky_module (sim_params Present)
                (snd (main flaky_module (sim_params Present) (flaky_sys True []))))
             of exit_json kw \<Rightarrow> kw | fail_json kw \<Rightarrow> kw) ''changed'' = Some (B True)"
proof -
  have a: "map_of (case fst (main (sim_module True) (sim_params Present)
                (snd (main (sim_module True) (sim_params Present) (sim_sys False False []))))
             of exit_json kw \<Rightarrow> kw | fail_json kw \<Rightarrow> kw) ''changed'' = Some (B True)"
    by (simp add: sim_main_check)
  have b: "fst (main (sim_module False) (sim_params Present) (sim_sys False True []))
       = fail_json [(''msg'', S ''network is down'')]"
    by (simp add: sim_main_offline)
  have c: "map_of (case fst (main (sim_module False) (sim_params Present)
                (snd (main (sim_module False) (sim_params Present) (sim_sys False True []))))
             of exit_json kw \<Rightarrow> kw | fail_json kw \<Rightarrow> kw) ''changed'' = Some (B True)"
    by (simp add: sim_main_offline sim_main_install)
  have d: "map_of (case fst (main flaky_module (sim_params Present) (flaky_sys True []))
             of exit_json kw \<Rightarrow> kw | fail_json kw \<Rightarrow> kw) ''changed'' = Some (B False)"
    by (simp add: flaky_first)
  have e: "map_of (case fst (main flaky_module (sim_params Present)
                (snd (main flaky_module (sim_params Present) (flaky_sys True []))))
             of exit_json kw \<Rightarrow> kw | fail_json kw \<Rightarrow> kw) ''changed'' = Some (B True)"
    by (simp add: flaky_first flaky_second)
  have f: "\<not> check_mode flaky_module" by (simp add: flaky_module_def)
  from a b c d e f sim_reflects sim_repeatable flaky_reflects show ?thesis by blast
qed

end
